theory Spec2Isabelle
  imports Main "HOL-Library.AList" "HOL-Library.Extended_Nat"
begin

section \<open>Data model of the server engine\<close>

text \<open>
  The engine (\<^verbatim>\<open>ServerEngine\<close> in \<^verbatim>\<open>server_engine.ts\<close>) keeps its sessions in a JavaScript
  object keyed by the string form of the authentication token. Such an object iterates in
  insertion order, so it is an association list here: \<open>AList.update\<close> overwrites an
  existing key in place and appends a new one, \<open>AList.delete\<close> is \<^verbatim>\<open>delete obj[key]\<close>,
  \<open>map_of\<close> is \<^verbatim>\<open>obj[key]\<close> and \<open>map snd\<close> is \<^verbatim>\<open>Object.values\<close>.

  JavaScript objects are shared by reference. Sessions and publish engines therefore carry
  an identity (\<open>sref\<close>, \<open>pe_ref\<close>), and a subscription names its session and its publish
  engine by that identity, which is what \<^verbatim>\<open>===\<close> compares.
\<close>

datatype StatusCode =
    Good
  | BadInternalError
  | BadInvalidState
  | BadUserAccessDenied
  | BadSubscriptionIdInvalid
  | BadNothingToDo
  | BadNotImplemented

datatype exn = TypeError | AssertionError | Error_cannot_find_session

datatype NodeIdType = NUMERIC | STRING | GUID | BYTESTRING

record NodeId =
  identifierType :: NodeIdType
  nid_value :: string
  namespace :: nat

datatype SessionStatus =
  status_new | status_active | status_screwed | status_closed | status_disposed

datatype ClosingReason = Timeout | Terminated | CloseSession | Forcing

datatype PublishEngineRef = PE_of_session nat | PE_orphan

record NotificationMessage =
  sequenceNumber :: nat
  publishTime :: int

record Subscription =
  subscriptionId :: nat
  session_ref :: "nat option"
  publishEngine_ref :: PublishEngineRef
  lifeTimeCount :: nat
  maxKeepAliveCount :: nat
  maxNotificationsPerPublish :: nat
  priority :: nat
  publishingEnabled :: bool
  publishingInterval :: nat
  monitoredItemCount :: nat
  retransmissionQueue :: "NotificationMessage list"
  transferRequestCount :: nat
  transferredToAltClientCount :: nat
  transferredToSameClientCount :: nat

record ServerSidePublishEngine =
  pe_ref :: PublishEngineRef
  subscriptions :: "(nat \<times> Subscription) list"

record ServerSession =
  sref :: nat
  authenticationToken :: NodeId
  status :: SessionStatus
  creationDate :: int
  sessionTimeout :: int
  publishEngine :: ServerSidePublishEngine

record ServerEngine =
  sessions :: "(string \<times> ServerSession) list"
  closedSessions :: "(string \<times> ServerSession) list"
  orphanPublishEngine :: "ServerSidePublishEngine option"
  cumulatedSessionCount :: int
  currentSessionCount :: int
  maxSessions :: nat
  clientDescription :: string

section \<open>Session lookup\<close>

text \<open>
  \<^verbatim>\<open>ServerEngine.getSession(authenticationToken, activeOnly)\<close>. The token may be
  \<^verbatim>\<open>null\<close> (\<open>None\<close>). The enum \<^verbatim>\<open>NodeIdType\<close> and \<^verbatim>\<open>NodeId.toString\<close> are imported from
  another package, so the numeric value of each enum member (\<open>enum\<close>) and the string form of
  a node id (\<open>toString\<close>) are parameters. The guard
  \<^verbatim>\<open>identifierType && identifierType !== NodeIdType.BYTESTRING\<close> tests the member's
  truthiness (a number is truthy when it is not 0) and then compares numbers. An omitted
  \<^verbatim>\<open>activeOnly\<close> is \<open>False\<close>.
\<close>

definition getSession ::
  "(NodeIdType \<Rightarrow> nat) \<Rightarrow> (NodeId \<Rightarrow> string) \<Rightarrow> ServerEngine \<Rightarrow> NodeId option \<Rightarrow> bool
     \<Rightarrow> ServerSession option" where
  "getSession enum toString engine authToken activeOnly =
     (case authToken of
        None \<Rightarrow> None
      | Some token \<Rightarrow>
          if enum (identifierType token) \<noteq> 0 \<and> enum (identifierType token) \<noteq> enum BYTESTRING
          then None
          else
            let key = toString token;
                session = map_of (sessions engine) key
            in if \<not> activeOnly \<and> session = None
               then map_of (closedSessions engine) key
               else session)"

text \<open>
  A declaration of \<^verbatim>\<open>NodeIdType\<close> in which every member other than \<^verbatim>\<open>BYTESTRING\<close> has a
  non-zero value that differs from the value of \<^verbatim>\<open>BYTESTRING\<close>.
\<close>

definition NodeIdType_distinct_truthy :: "(NodeIdType \<Rightarrow> nat) \<Rightarrow> bool" where
  "NodeIdType_distinct_truthy enum =
     (list_all (\<lambda>t. enum t \<noteq> 0 \<and> enum t \<noteq> enum BYTESTRING) [NUMERIC, STRING, GUID])"

section \<open>Subscription lookup\<close>

text \<open>
  Modelled from the spec: \<^verbatim>\<open>ServerSidePublishEngine.getSubscriptionById\<close> is not among the
  sources. The spec makes a publish engine (a session's, or the orphanage) the owner of its
  subscriptions, which are identified by a server-global integer id; the lookup returns the
  subscription held under the id.
\<close>

definition getSubscriptionById :: "ServerSidePublishEngine \<Rightarrow> nat \<Rightarrow> Subscription option" where
  "getSubscriptionById pe sid = map_of (subscriptions pe) sid"

text \<open>
  Modelled from the spec: \<^verbatim>\<open>ServerSession.getSubscription\<close> is not among the sources. The
  spec gives a session the set of its subscriptions; they are the ones its publish engine holds.
\<close>

definition ServerSession_getSubscription :: "ServerSession \<Rightarrow> nat \<Rightarrow> Subscription option" where
  "ServerSession_getSubscription session sid = getSubscriptionById (publishEngine session) sid"

definition findOrphanSubscription :: "ServerEngine \<Rightarrow> nat \<Rightarrow> Subscription option" where
  "findOrphanSubscription engine sid =
     (case orphanPublishEngine engine of
        None \<Rightarrow> None
      | Some orphan \<Rightarrow> getSubscriptionById orphan sid)"

text \<open>
  The body of \<^verbatim>\<open>Object.values(this._sessions).map(...)\<close> in \<^verbatim>\<open>findSubscription\<close>: the
  array \<open>found\<close> (\<^verbatim>\<open>subscriptions\<close> in the source) receives the first hit and later sessions
  are skipped.
\<close>

fun findSubscription_loop :: "ServerSession list \<Rightarrow> nat \<Rightarrow> Subscription list \<Rightarrow> Subscription list" where
  "findSubscription_loop [] sid found = found"
| "findSubscription_loop (session # rest) sid found =
     (if found \<noteq> [] then findSubscription_loop rest sid found
      else (case getSubscriptionById (publishEngine session) sid of
              None \<Rightarrow> findSubscription_loop rest sid found
            | Some subscription \<Rightarrow> findSubscription_loop rest sid (found @ [subscription])))"

definition findSubscription :: "ServerEngine \<Rightarrow> nat \<Rightarrow> Subscription option" where
  "findSubscription engine sid =
     (case findSubscription_loop (map snd (sessions engine)) sid [] of
        subscription # _ \<Rightarrow> Some subscription
      | [] \<Rightarrow> findOrphanSubscription engine sid)"

section \<open>Methods bound to the Server object\<close>

text \<open>
  The input arguments of the three methods are \<^verbatim>\<open>UInt32\<close> scalars; \<open>inputArguments\<close> lists
  their values. Reading \<^verbatim>\<open>inputArguments[i].value\<close> past the end of the array throws a
  \<^verbatim>\<open>TypeError\<close>. The callback's arguments are the function's result: \<open>Inl\<close> for a thrown
  or passed error, \<open>Inr\<close> for a \<^verbatim>\<open>CallMethodResult\<close>.
\<close>

datatype Variant = UInt32_Scalar nat | UInt32_Array "nat list"

record CallMethodResult =
  statusCode :: StatusCode
  outputArguments :: "Variant list"

record SessionContext =
  context_session :: "ServerSession option"

text \<open>\<^verbatim>\<open>_getSubscription\<close>: either a status code or the caller's subscription.\<close>

definition getSubscription ::
  "ServerEngine \<Rightarrow> nat list \<Rightarrow> SessionContext \<Rightarrow> exn + (StatusCode + Subscription)" where
  "getSubscription engine inputArguments context =
     (case context_session context of
        None \<Rightarrow> Inr (Inl BadInternalError)
      | Some session \<Rightarrow>
          (case inputArguments of
             [] \<Rightarrow> Inl TypeError
           | sid # _ \<Rightarrow>
               (case ServerSession_getSubscription session sid of
                  None \<Rightarrow>
                    if findSubscription engine sid \<noteq> None
                    then Inr (Inl BadUserAccessDenied)
                    else Inr (Inl BadSubscriptionIdInvalid)
                | Some subscription \<Rightarrow> Inr (Inr subscription))))"

text \<open>
  The options \<^verbatim>\<open>setSubscriptionDurable\<close> hands to \<^verbatim>\<open>subscription.modify\<close>. The requested
  lifetime count is \<^verbatim>\<open>Math.ceil(hours * 3600000 / publishingInterval)\<close>, which is
  \<^verbatim>\<open>Infinity\<close> (\<open>\<infinity>\<close>) for a publishing interval of 0.
\<close>

record ModifyOptions =
  requestedMaxKeepAliveCount :: nat
  requestedPublishingInterval :: nat
  mod_maxNotificationsPerPublish :: nat
  mod_priority :: nat
  requestedLifetimeCount :: enat

definition ceil_div :: "nat \<Rightarrow> nat \<Rightarrow> enat" where
  "ceil_div a b = (if b = 0 then \<infinity> else enat ((a + b - 1) div b))"

text \<open>
  \<^verbatim>\<open>setSubscriptionDurable\<close>. \<^verbatim>\<open>Subscription.modify\<close> is not among the sources and is the
  parameter \<open>modify\<close>. Durations are whole milliseconds and the arithmetic is exact:
  \<^verbatim>\<open>(lifeTimeCount * publishingInterval) / 3600000 < revised\<close> is compared after multiplying
  both sides by 3600000. The second component of the result is the subscription as the call
  leaves it.
\<close>

definition setSubscriptionDurable ::
  "(ModifyOptions \<Rightarrow> Subscription \<Rightarrow> Subscription) \<Rightarrow> ServerEngine \<Rightarrow> nat list \<Rightarrow> SessionContext
     \<Rightarrow> exn + (CallMethodResult \<times> Subscription option)" where
  "setSubscriptionDurable modify engine inputArguments context =
     (case getSubscription engine inputArguments context of
        Inl e \<Rightarrow> Inl e
      | Inr (Inl code) \<Rightarrow> Inr (\<lparr>statusCode = code, outputArguments = []\<rparr>, None)
      | Inr (Inr subscription) \<Rightarrow>
          (case inputArguments of
             _ # lifetimeInHours # _ \<Rightarrow>
               if monitoredItemCount subscription > 0
               then Inr (\<lparr>statusCode = BadInvalidState, outputArguments = []\<rparr>, Some subscription)
               else
                 let highestLifetimeInHours = 24 * 100;
                     revisedLifetimeInHours =
                       (if lifetimeInHours = 0 then highestLifetimeInHours
                        else max 1 (min lifetimeInHours highestLifetimeInHours));
                     subscription' =
                       (if lifeTimeCount subscription * publishingInterval subscription
                             < revisedLifetimeInHours * (1000 * 60 * 60)
                        then modify
                               \<lparr>requestedMaxKeepAliveCount = maxKeepAliveCount subscription,
                                requestedPublishingInterval = publishingInterval subscription,
                                mod_maxNotificationsPerPublish = maxNotificationsPerPublish subscription,
                                mod_priority = priority subscription,
                                requestedLifetimeCount =
                                  ceil_div (revisedLifetimeInHours * (1000 * 60 * 60))
                                    (publishingInterval subscription)\<rparr>
                               subscription
                        else subscription)
                 in Inr (\<lparr>statusCode = Good,
                          outputArguments = [UInt32_Scalar revisedLifetimeInHours]\<rparr>,
                         Some subscription')
           | _ \<Rightarrow> Inl TypeError))"

text \<open>
  \<^verbatim>\<open>resendData\<close>. \<^verbatim>\<open>Subscription.resendInitialValues\<close> is not among the sources and is
  the parameter \<open>resendInitialValues\<close>; a rejected promise is \<open>Inl\<close>.
\<close>

definition resendData ::
  "(Subscription \<Rightarrow> exn + Subscription) \<Rightarrow> ServerEngine \<Rightarrow> nat list \<Rightarrow> SessionContext
     \<Rightarrow> exn + (CallMethodResult \<times> Subscription option)" where
  "resendData resendInitialValues engine inputArguments context =
     (case getSubscription engine inputArguments context of
        Inl e \<Rightarrow> Inl e
      | Inr (Inl code) \<Rightarrow> Inr (\<lparr>statusCode = code, outputArguments = []\<rparr>, None)
      | Inr (Inr subscription) \<Rightarrow>
          (case resendInitialValues subscription of
             Inl err \<Rightarrow> Inl err
           | Inr subscription' \<Rightarrow>
               Inr (\<lparr>statusCode = Good, outputArguments = []\<rparr>, Some subscription')))"

text \<open>
  \<^verbatim>\<open>getMonitoredItemsId\<close>. \<^verbatim>\<open>Subscription.getMonitoredItems\<close> is not among the sources and
  is the parameter \<open>getMonitoredItems\<close>, which returns a status code, the server handles and
  the client handles. The source asserts that both arrays have the same length.
\<close>

definition getMonitoredItemsId ::
  "(Subscription \<Rightarrow> StatusCode \<times> nat list \<times> nat list) \<Rightarrow> ServerEngine \<Rightarrow> nat list \<Rightarrow> SessionContext
     \<Rightarrow> exn + CallMethodResult" where
  "getMonitoredItemsId getMonitoredItems engine inputArguments context =
     (case getSubscription engine inputArguments context of
        Inl e \<Rightarrow> Inl e
      | Inr (Inl code) \<Rightarrow> Inr \<lparr>statusCode = code, outputArguments = []\<rparr>
      | Inr (Inr subscription) \<Rightarrow>
          (case getMonitoredItems subscription of
             (code, serverHandles, clientHandles) \<Rightarrow>
               if length serverHandles \<noteq> length clientHandles then Inl AssertionError
               else Inr \<lparr>statusCode = code,
                         outputArguments = [UInt32_Array serverHandles, UInt32_Array clientHandles]\<rparr>))"

section \<open>Session lifecycle\<close>

text \<open>The \<^verbatim>\<open>for\<close> loop of \<^verbatim>\<open>getOldestInactiveSession\<close> over \<^verbatim>\<open>tmp[1..]\<close>.\<close>

fun getOldestInactiveSession_loop :: "ServerSession \<Rightarrow> ServerSession list \<Rightarrow> ServerSession" where
  "getOldestInactiveSession_loop session [] = session"
| "getOldestInactiveSession_loop session (c # rest) =
     (if creationDate session < creationDate c
      then getOldestInactiveSession_loop c rest
      else getOldestInactiveSession_loop session rest)"

definition getOldestInactiveSession :: "ServerEngine \<Rightarrow> ServerSession option" where
  "getOldestInactiveSession engine =
     (let tmp = filter (\<lambda>session1. status session1 = status_screwed
                          \<or> status session1 = status_disposed
                          \<or> status session1 = status_closed)
                  (map snd (sessions engine));
          tmp' = (if length tmp = 0
                  then filter (\<lambda>session1. status session1 = status_new) (map snd (sessions engine))
                  else tmp)
      in case tmp' of
           [] \<Rightarrow> None
         | first # rest \<Rightarrow> Some (getOldestInactiveSession_loop first rest))"

text \<open>
  Modelled from the spec: the class \<^verbatim>\<open>ServerSession\<close> is not among the sources. The spec's
  session has an authentication token, a timeout, a status that starts at \<open>new\<close> and a set of
  subscriptions, empty at first. The constructor is given the session timeout and keeps it.
  The fresh object identity, the fresh random token and the clock reading are arguments.
\<close>

definition ServerSession_new :: "nat \<Rightarrow> NodeId \<Rightarrow> int \<Rightarrow> int \<Rightarrow> ServerSession" where
  "ServerSession_new ref token now timeout =
     \<lparr>sref = ref, authenticationToken = token, status = status_new, creationDate = now,
      sessionTimeout = timeout,
      publishEngine = \<lparr>pe_ref = PE_of_session ref, subscriptions = []\<rparr>\<rparr>"

record CreateSessionOption =
  opt_clientDescription :: "string option"
  opt_sessionTimeout :: "int option"

text \<open>
  \<^verbatim>\<open>createSession(options)\<close>. An omitted \<^verbatim>\<open>options\<close> is \<open>None\<close>, an omitted field is
  \<open>None\<close>; \<^verbatim>\<open>options.sessionTimeout || 1000\<close> replaces an omitted or zero timeout
  (milliseconds) by 1000. The handlers registered with \<^verbatim>\<open>session.on\<close> run later, on events,
  and are not part of the call; the user manager handed to the session plays no part here.
  The result is the new session and the engine after the call.
\<close>

definition createSession ::
  "(NodeId \<Rightarrow> string) \<Rightarrow> ServerEngine \<Rightarrow> CreateSessionOption option \<Rightarrow> nat \<Rightarrow> NodeId \<Rightarrow> int
     \<Rightarrow> ServerSession \<times> ServerEngine" where
  "createSession toString engine options ref token now =
     (let opts = (case options of
                    None \<Rightarrow> \<lparr>opt_clientDescription = None, opt_sessionTimeout = None\<rparr>
                  | Some given \<Rightarrow> given);
          engine1 = engine\<lparr>cumulatedSessionCount := cumulatedSessionCount engine + 1\<rparr>;
          engine2 = engine1\<lparr>currentSessionCount := currentSessionCount engine1 + 1\<rparr>;
          engine3 = engine2\<lparr>clientDescription :=
                      (case opt_clientDescription opts of None \<Rightarrow> [] | Some d \<Rightarrow> d)\<rparr>;
          timeout = (case opt_sessionTimeout opts of
                       None \<Rightarrow> 1000
                     | Some t \<Rightarrow> if t = 0 then 1000 else t);
          session = ServerSession_new ref token now timeout;
          key = toString (authenticationToken session)
      in (session, engine3\<lparr>sessions := AList.update key session (sessions engine3)\<rparr>))"

text \<open>
  Modelled from the spec: \<^verbatim>\<open>ServerSidePublishEngine.transferSubscriptionsToOrphan\<close> is not
  among the sources. The spec transfers all live subscriptions of the closing session to the
  orphanage: every subscription of the source engine moves to the destination engine and
  names it as its publish engine from then on; the source engine is left empty.
\<close>

definition transferSubscriptionsToOrphan ::
  "ServerSidePublishEngine \<Rightarrow> ServerSidePublishEngine
     \<Rightarrow> ServerSidePublishEngine \<times> ServerSidePublishEngine" where
  "transferSubscriptionsToOrphan srcPublishEngine destPublishEngine =
     (srcPublishEngine\<lparr>subscriptions := []\<rparr>,
      destPublishEngine\<lparr>subscriptions :=
        subscriptions destPublishEngine
          @ map (\<lambda>(sid, subscription).
                   (sid, subscription\<lparr>publishEngine_ref := pe_ref destPublishEngine\<rparr>))
              (subscriptions srcPublishEngine)\<rparr>)"

text \<open>
  Modelled from the spec: \<^verbatim>\<open>ServerSession.close\<close> is not among the sources. Per the spec,
  closing with \<^verbatim>\<open>deleteSubscriptions\<close> deletes each subscription of the session, and the
  status becomes \<open>closed\<close>.
\<close>

definition ServerSession_close :: "ServerSession \<Rightarrow> bool \<Rightarrow> ClosingReason \<Rightarrow> ServerSession" where
  "ServerSession_close session deleteSubscriptions reason =
     (let session1 =
            (if deleteSubscriptions
             then session\<lparr>publishEngine := (publishEngine session)\<lparr>subscriptions := []\<rparr>\<rparr>
             else session)
      in session1\<lparr>status := status_closed\<rparr>)"

text \<open>
  Modelled from the spec: \<^verbatim>\<open>ServerSession.dispose\<close> is not among the sources. In the spec
  the status of a closed session goes on to \<open>disposed\<close>, the last value of the status;
  disposing is that step.
\<close>

definition ServerSession_dispose :: "ServerSession \<Rightarrow> ServerSession" where
  "ServerSession_dispose session = session\<lparr>status := status_disposed\<rparr>"

text \<open>
  \<^verbatim>\<open>closeSession(authenticationToken, deleteSubscriptions, reason)\<close>. A missing session
  throws. The orphan publish engine is created on first use. The source asserts
  \<^verbatim>\<open>session.status === "closed"\<close> after \<^verbatim>\<open>session.close\<close>; the assertion holds by
  \<open>ServerSession_close\<close>. The result is the engine after the call together with the session
  object as \<^verbatim>\<open>session.close\<close> left it and as \<^verbatim>\<open>session.dispose\<close> left it at the end.
\<close>

definition closeSession ::
  "(NodeIdType \<Rightarrow> nat) \<Rightarrow> (NodeId \<Rightarrow> string) \<Rightarrow> ServerEngine \<Rightarrow> NodeId \<Rightarrow> bool \<Rightarrow> ClosingReason
     \<Rightarrow> exn + (ServerEngine \<times> ServerSession \<times> ServerSession)" where
  "closeSession enum toString engine authToken deleteSubscriptions reason =
     (case getSession enum toString engine (Some authToken) False of
        None \<Rightarrow> Inl Error_cannot_find_session
      | Some session \<Rightarrow>
          let (session1, engine1) =
                (if \<not> deleteSubscriptions
                 then
                   let orphan = (case orphanPublishEngine engine of
                                   None \<Rightarrow> \<lparr>pe_ref = PE_orphan, subscriptions = []\<rparr>
                                 | Some existing \<Rightarrow> existing);
                       (src, dest) = transferSubscriptionsToOrphan (publishEngine session) orphan
                   in (session\<lparr>publishEngine := src\<rparr>,
                       engine\<lparr>orphanPublishEngine := Some dest\<rparr>)
                 else (session, engine));
              closed = ServerSession_close session1 deleteSubscriptions reason;
              engine2 = engine1\<lparr>currentSessionCount := currentSessionCount engine1 - 1\<rparr>;
              engine3 = engine2\<lparr>sessions := AList.delete (toString authToken) (sessions engine2)\<rparr>
          in Inr (engine3, closed, ServerSession_dispose closed))"

section \<open>Transfer of a subscription\<close>

text \<open>
  A subscription object that was mutated is written back to the publish engine that holds
  it (the model of mutation through a shared reference).
\<close>

definition store_subscription :: "Subscription \<Rightarrow> ServerSidePublishEngine \<Rightarrow> ServerSidePublishEngine" where
  "store_subscription subscription pe =
     pe\<lparr>subscriptions :=
          map (\<lambda>(sid, held). if sid = subscriptionId subscription then (sid, subscription)
                              else (sid, held))
            (subscriptions pe)\<rparr>"

definition write_back :: "Subscription \<Rightarrow> ServerEngine \<Rightarrow> ServerEngine" where
  "write_back subscription engine =
     engine\<lparr>sessions :=
              map (\<lambda>(key, session).
                     (key, session\<lparr>publishEngine :=
                                     store_subscription subscription (publishEngine session)\<rparr>))
                (sessions engine),
            orphanPublishEngine :=
              map_option (store_subscription subscription) (orphanPublishEngine engine)\<rparr>"

text \<open>
  Modelled from the spec: \<^verbatim>\<open>ServerSidePublishEngine.add_subscription\<close> is not among the
  sources. The publish engine holds the subscription under its id.
\<close>

definition add_subscription :: "ServerSidePublishEngine \<Rightarrow> Subscription \<Rightarrow> ServerSidePublishEngine" where
  "add_subscription pe subscription =
     pe\<lparr>subscriptions := AList.update (subscriptionId subscription) subscription (subscriptions pe)\<rparr>"

text \<open>
  Modelled from the spec: \<^verbatim>\<open>ServerSidePublishEngine.transferSubscription\<close> is not among the
  sources. The spec detaches the subscription from its source publish engine and attaches
  it to the target's. Sending initial values re-queues monitored-item values; the queues of
  monitored items are not part of this model, so the flag changes nothing here. The result
  is the subscription as attached and the engine after the move.
\<close>

definition ServerSidePublishEngine_transferSubscription ::
  "Subscription \<Rightarrow> ServerSession \<Rightarrow> bool \<Rightarrow> ServerEngine \<Rightarrow> Subscription \<times> ServerEngine" where
  "ServerSidePublishEngine_transferSubscription subscription target sendInitialValues engine =
     (let sid = subscriptionId subscription;
          attached = subscription\<lparr>publishEngine_ref := pe_ref (publishEngine target)\<rparr>;
          detach = (\<lambda>pe. pe\<lparr>subscriptions := AList.delete sid (subscriptions pe)\<rparr>);
          move = (\<lambda>session.
                    session\<lparr>publishEngine :=
                      (if sref session = sref target
                       then add_subscription (detach (publishEngine session)) attached
                       else detach (publishEngine session))\<rparr>)
      in (attached,
          engine\<lparr>sessions := map (\<lambda>(key, session). (key, move session)) (sessions engine),
                 orphanPublishEngine := map_option detach (orphanPublishEngine engine)\<rparr>))"

text \<open>
  Modelled from the spec: \<^verbatim>\<open>Subscription.getAvailableSequenceNumbers\<close> is not among the
  sources. The spec returns the retransmission queue: the sequence numbers of the
  notification messages it holds, in queue order.
\<close>

definition getAvailableSequenceNumbers :: "Subscription \<Rightarrow> nat list" where
  "getAvailableSequenceNumbers subscription = map sequenceNumber (retransmissionQueue subscription)"

record TransferResult =
  transfer_statusCode :: StatusCode
  availableSequenceNumbers :: "nat list"

text \<open>
  \<^verbatim>\<open>transferSubscription(session, subscriptionId, sendInitialValues)\<close>.
  \<^verbatim>\<open>sessionsCompatibleForTransfer\<close> is imported from a file that is not among the sources
  and is the parameter \<open>compatible\<close>: it receives the identity of the subscription's session,
  if it has one, and the target session. The diagnostics counters live on the subscription.
  The source's final assertion, that the subscription names the target's publish engine,
  holds by \<open>ServerSidePublishEngine_transferSubscription\<close>. The address-space nodes that
  expose the diagnostics are not modelled. The result is the \<^verbatim>\<open>TransferResult\<close> and the
  engine after the call.
\<close>

definition transferSubscription ::
  "(nat option \<Rightarrow> ServerSession \<Rightarrow> bool) \<Rightarrow> ServerEngine \<Rightarrow> ServerSession \<Rightarrow> nat \<Rightarrow> bool
     \<Rightarrow> TransferResult \<times> ServerEngine" where
  "transferSubscription compatible engine session sid sendInitialValues =
     (if sid \<le> 0
      then (\<lparr>transfer_statusCode = BadSubscriptionIdInvalid, availableSequenceNumbers = []\<rparr>, engine)
      else
        (case findSubscription engine sid of
           None \<Rightarrow>
             (\<lparr>transfer_statusCode = BadSubscriptionIdInvalid, availableSequenceNumbers = []\<rparr>,
              engine)
         | Some subscription \<Rightarrow>
             if \<not> compatible (session_ref subscription) session
             then (\<lparr>transfer_statusCode = BadUserAccessDenied, availableSequenceNumbers = []\<rparr>,
                   engine)
             else
               let subscription1 =
                     subscription\<lparr>transferRequestCount := transferRequestCount subscription + 1\<rparr>
               in if pe_ref (publishEngine session) = publishEngine_ref subscription1
                  then (\<lparr>transfer_statusCode = BadNothingToDo, availableSequenceNumbers = []\<rparr>,
                        write_back subscription1 engine)
                  else if Some (sref session) = session_ref subscription1
                  then (\<lparr>transfer_statusCode = BadNothingToDo, availableSequenceNumbers = []\<rparr>,
                        write_back subscription1 engine)
                  else
                    let subscription2 =
                          subscription1\<lparr>transferredToAltClientCount :=
                                          transferredToAltClientCount subscription1 + 1\<rparr>;
                        subscription3 =
                          subscription2\<lparr>transferredToSameClientCount :=
                                          transferredToSameClientCount subscription2 + 1\<rparr>;
                        subscription4 = subscription3\<lparr>session_ref := Some (sref session)\<rparr>;
                        (subscription5, engine1) =
                          ServerSidePublishEngine_transferSubscription subscription4 session
                            sendInitialValues engine
                    in (\<lparr>transfer_statusCode = Good,
                         availableSequenceNumbers = getAvailableSequenceNumbers subscription5\<rparr>,
                        engine1)))"

section \<open>Creation of a subscription\<close>

text \<open>
  The module-level counter \<^verbatim>\<open>next_subscriptionId\<close> is threaded through: it is seeded with
  \<^verbatim>\<open>Math.ceil(Math.random() * 1000000)\<close> when the module is loaded, so its first value is
  an arbitrary argument. \<^verbatim>\<open>_get_next_subscriptionId\<close> returns the counter and
  increments it.
\<close>

definition setNextSubscriptionId :: "nat \<Rightarrow> nat" where
  "setNextSubscriptionId n = max n 1"

definition get_next_subscriptionId :: "nat \<Rightarrow> nat \<times> nat" where
  "get_next_subscriptionId next_subscriptionId = (next_subscriptionId, next_subscriptionId + 1)"

record CreateSubscriptionRequest =
  req_requestedPublishingInterval :: "nat option"
  req_requestedLifetimeCount :: "nat option"
  req_requestedMaxKeepAliveCount :: "nat option"
  req_maxNotificationsPerPublish :: nat
  req_publishingEnabled :: bool
  req_priority :: "nat option"

text \<open>
  Modelled from the spec: the class \<^verbatim>\<open>Subscription\<close> is not among the sources. The spec's
  subscription has an id, publishing parameters, monitored items (none at first) and a
  retransmission queue (empty at first). The constructor keeps the id, the publish engine
  and the parameters it is given; the new subscription has no session yet.
\<close>

definition Subscription_new ::
  "nat \<Rightarrow> nat \<Rightarrow> nat \<Rightarrow> nat \<Rightarrow> nat \<Rightarrow> PublishEngineRef \<Rightarrow> bool \<Rightarrow> nat \<Rightarrow> Subscription" where
  "Subscription_new sid lifeTime keepAlive maxNotifications prio pe enabled interval =
     \<lparr>subscriptionId = sid, session_ref = None, publishEngine_ref = pe,
      lifeTimeCount = lifeTime, maxKeepAliveCount = keepAlive,
      maxNotificationsPerPublish = maxNotifications, priority = prio,
      publishingEnabled = enabled, publishingInterval = interval, monitoredItemCount = 0,
      retransmissionQueue = [], transferRequestCount = 0, transferredToAltClientCount = 0,
      transferredToSameClientCount = 0\<rparr>"

text \<open>
  \<^verbatim>\<open>_createSubscriptionOnSession(session, request)\<close>; \<^verbatim>\<open>x || 0\<close> turns an undefined
  request field into 0. The result is the subscription, the counter and the session after
  the call.
\<close>

definition createSubscriptionOnSession ::
  "nat \<Rightarrow> ServerSession \<Rightarrow> CreateSubscriptionRequest \<Rightarrow> Subscription \<times> nat \<times> ServerSession" where
  "createSubscriptionOnSession next_subscriptionId session request =
     (let interval = (case req_requestedPublishingInterval request of None \<Rightarrow> 0 | Some v \<Rightarrow> v);
          keepAlive = (case req_requestedMaxKeepAliveCount request of None \<Rightarrow> 0 | Some v \<Rightarrow> v);
          lifeTime = (case req_requestedLifetimeCount request of None \<Rightarrow> 0 | Some v \<Rightarrow> v);
          (sid, next') = get_next_subscriptionId next_subscriptionId;
          subscription =
            Subscription_new sid lifeTime keepAlive (req_maxNotificationsPerPublish request)
              (case req_priority request of None \<Rightarrow> 0 | Some v \<Rightarrow> v)
              (pe_ref (publishEngine session)) (req_publishingEnabled request) interval
      in (subscription, next',
          session\<lparr>publishEngine := add_subscription (publishEngine session) subscription\<rparr>))"

text \<open>
  Successive calls of \<^verbatim>\<open>_createSubscriptionOnSession\<close>, each on a session and a request of
  its own, in one server process: the counter left by a call is the one the next call reads.
\<close>

fun createSubscriptions ::
  "nat \<Rightarrow> (ServerSession \<times> CreateSubscriptionRequest) list \<Rightarrow> Subscription list \<times> nat" where
  "createSubscriptions next_subscriptionId [] = ([], next_subscriptionId)"
| "createSubscriptions next_subscriptionId ((session, request) # calls) =
     (case createSubscriptionOnSession next_subscriptionId session request of
        (subscription, next', _) \<Rightarrow>
          (case createSubscriptions next' calls of
             (created, next'') \<Rightarrow> (subscription # created, next'')))"

section \<open>Relative paths\<close>

text \<open>
  Modelled from the spec: \<^verbatim>\<open>makeRelativePath\<close> is not among the sources (only its test
  file is). The parser below follows the grammar of the spec:
  \<^verbatim>\<open>Path := Element+\<close>, \<^verbatim>\<open>Element := RefSpec TargetName?\<close>,
  \<^verbatim>\<open>RefSpec := / | . | < #? !? QName >\<close>, \<^verbatim>\<open>TargetName := QName\<close> (may be empty),
  \<^verbatim>\<open>QName := (digits :)? Chars\<close>, where \<^verbatim>\<open>Chars\<close> is any character except a reserved
  one, or \<^verbatim>\<open>&\<close> followed by a reserved one. A slash follows hierarchical references and
  a dot follows aggregates, both forward and with subtypes; in an explicit reference type
  \<^verbatim>\<open>#\<close> clears \<^verbatim>\<open>includeSubtypes\<close> and \<^verbatim>\<open>!\<close> sets \<^verbatim>\<open>isInverse\<close>. A name without a
  namespace prefix gets namespace 0. An explicit reference type is kept by its qualified
  name.
\<close>

record QualifiedName =
  namespaceIndex :: nat
  name :: string

datatype ReferenceType = HierarchicalReferences | Aggregates | ReferenceNamed QualifiedName

record RelativePathElement =
  referenceTypeId :: ReferenceType
  isInverse :: bool
  includeSubtypes :: bool
  targetName :: QualifiedName

record RelativePath =
  elements :: "RelativePathElement list"

text \<open>Modelled from the spec: the reserved characters of the grammar.\<close>

definition reservedChars :: string where
  "reservedChars = ''/.<>:#!&''"

definition isReserved :: "char \<Rightarrow> bool" where
  "isReserved c = (c \<in> set reservedChars)"

text \<open>
  Modelled from the spec: \<^verbatim>\<open>Chars\<close>. The result is the characters read, escapes
  resolved, and the input that remains.
\<close>

fun parse_Chars :: "string \<Rightarrow> string \<times> string" where
  "parse_Chars [] = ([], [])"
| "parse_Chars [c] = (if isReserved c then ([], [c]) else ([c], []))"
| "parse_Chars (c # d # rest) =
     (if c = CHR ''&'' \<and> isReserved d
      then (case parse_Chars rest of (chars, remaining) \<Rightarrow> (d # chars, remaining))
      else if isReserved c then ([], c # d # rest)
      else (case parse_Chars (d # rest) of (chars, remaining) \<Rightarrow> (c # chars, remaining)))"

definition isDigit :: "char \<Rightarrow> bool" where
  "isDigit c = (48 \<le> (of_char c :: nat) \<and> (of_char c :: nat) \<le> 57)"

definition digits_value :: "string \<Rightarrow> nat" where
  "digits_value ds = foldl (\<lambda>n c. 10 * n + (of_char c - 48)) 0 ds"

text \<open>
  Modelled from the spec: \<^verbatim>\<open>QName\<close>. Digits are a namespace prefix only when a colon
  follows them; otherwise they belong to the name.
\<close>

definition parse_QName :: "string \<Rightarrow> QualifiedName \<times> string" where
  "parse_QName s =
     (let ds = takeWhile isDigit s
      in case (ds, dropWhile isDigit s) of
           (_ # _, c # rest) \<Rightarrow>
             if c = CHR '':''
             then (case parse_Chars rest of
                     (chars, remaining) \<Rightarrow>
                       (\<lparr>namespaceIndex = digits_value ds, name = chars\<rparr>, remaining))
             else (case parse_Chars s of
                     (chars, remaining) \<Rightarrow> (\<lparr>namespaceIndex = 0, name = chars\<rparr>, remaining))
         | _ \<Rightarrow>
             (case parse_Chars s of
                (chars, remaining) \<Rightarrow> (\<lparr>namespaceIndex = 0, name = chars\<rparr>, remaining)))"

definition optional_char :: "char \<Rightarrow> string \<Rightarrow> bool \<times> string" where
  "optional_char c s =
     (case s of
        [] \<Rightarrow> (False, s)
      | h # t \<Rightarrow> if h = c then (True, t) else (False, s))"

text \<open>
  Modelled from the spec: \<^verbatim>\<open>RefSpec\<close>. The result is the reference type, \<^verbatim>\<open>isInverse\<close>,
  \<^verbatim>\<open>includeSubtypes\<close> and the input that remains; \<open>None\<close> when no reference specifier
  starts the input.
\<close>

definition parse_RefSpec :: "string \<Rightarrow> ((ReferenceType \<times> bool \<times> bool) \<times> string) option" where
  "parse_RefSpec s =
     (case s of
        [] \<Rightarrow> None
      | c # rest \<Rightarrow>
          if c = CHR ''/'' then Some ((HierarchicalReferences, False, True), rest)
          else if c = CHR ''.'' then Some ((Aggregates, False, True), rest)
          else if c = CHR ''<'' then
            (case optional_char CHR ''#'' rest of
               (noSubtypes, rest1) \<Rightarrow>
                 (case optional_char CHR ''!'' rest1 of
                    (inv_flag, rest2) \<Rightarrow>
                      (case parse_QName rest2 of
                         (qname, rest3) \<Rightarrow>
                           (case rest3 of
                              [] \<Rightarrow> None
                            | h # rest4 \<Rightarrow>
                                if h = CHR ''>''
                                then Some ((ReferenceNamed qname, inv_flag, \<not> noSubtypes), rest4)
                                else None))))
          else None)"

text \<open>Modelled from the spec: \<^verbatim>\<open>Element\<close>.\<close>

definition parse_Element :: "string \<Rightarrow> (RelativePathElement \<times> string) option" where
  "parse_Element s =
     (case parse_RefSpec s of
        None \<Rightarrow> None
      | Some ((refType, inv_flag, subtypes), rest) \<Rightarrow>
          (case parse_QName rest of
             (qname, remaining) \<Rightarrow>
               Some (\<lparr>referenceTypeId = refType, isInverse = inv_flag,
                      includeSubtypes = subtypes, targetName = qname\<rparr>, remaining)))"

text \<open>Every element consumes at least one character, so parsing a path terminates.\<close>

lemma parse_Chars_length: "length (snd (parse_Chars s)) \<le> length s"
  by (induction s rule: parse_Chars.induct) (auto split: prod.splits)

lemma parse_QName_length: "length (snd (parse_QName s)) \<le> length s"
proof -
  have tail: "length rest < length s" if "dropWhile isDigit s = c # rest" for c rest
    using length_dropWhile_le [of isDigit s] that by simp
  have chars: "length (snd (parse_Chars rest)) < length s" if "dropWhile isDigit s = c # rest" for c rest
    using tail [OF that] parse_Chars_length [of rest] by simp
  show ?thesis
    using parse_Chars_length [of s] chars
    by (auto simp: parse_QName_def Let_def split: list.splits prod.splits dest!: chars)
qed

lemma optional_char_length: "length (snd (optional_char c s)) \<le> length s"
  by (simp add: optional_char_def split: list.splits)

lemma parse_RefSpec_length:
  assumes "parse_RefSpec s = Some (spec, rest)"
  shows "length rest < length s"
proof (cases s)
  case Nil
  with assms show ?thesis by (simp add: parse_RefSpec_def)
next
  case (Cons c t)
  show ?thesis
  proof (cases "c = CHR ''/'' \<or> c = CHR ''.''")
    case True
    with assms Cons show ?thesis
      by (auto simp: parse_RefSpec_def split: if_splits)
  next
    case False
    obtain f1 r1 where o1: "optional_char CHR ''#'' t = (f1, r1)" by (cases "optional_char CHR ''#'' t")
    obtain f2 r2 where o2: "optional_char CHR ''!'' r1 = (f2, r2)" by (cases "optional_char CHR ''!'' r1")
    obtain q r3 where o3: "parse_QName r2 = (q, r3)" by (cases "parse_QName r2")
    have l1: "length r1 \<le> length t" using optional_char_length [of "CHR ''#''" t] o1 by simp
    have l2: "length r2 \<le> length r1" using optional_char_length [of "CHR ''!''" r1] o2 by simp
    have l3: "length r3 \<le> length r2" using parse_QName_length [of r2] o3 by simp
    from assms Cons False o1 o2 o3 have "\<exists>h. r3 = h # rest"
      by (auto simp: parse_RefSpec_def split: if_splits list.splits)
    with l1 l2 l3 Cons show ?thesis by auto
  qed
qed

lemma parse_Element_length:
  assumes "parse_Element s = Some (element, rest)"
  shows "length rest < length s"
proof -
  from assms obtain spec r where spec: "parse_RefSpec s = Some (spec, r)"
    and rest: "rest = snd (parse_QName r)"
    by (auto simp: parse_Element_def split: option.splits prod.splits)
  show ?thesis
    using parse_RefSpec_length [OF spec] parse_QName_length [of r] rest by simp
qed

text \<open>Modelled from the spec: \<^verbatim>\<open>Path\<close>, read to the end of the input.\<close>

function parse_Path :: "string \<Rightarrow> RelativePathElement list option" where
  "parse_Path [] = Some []"
| "parse_Path (c # cs) =
     (case parse_Element (c # cs) of
        None \<Rightarrow> None
      | Some (element, rest) \<Rightarrow>
          (case parse_Path rest of
             None \<Rightarrow> None
           | Some others \<Rightarrow> Some (element # others)))"
  by pat_completeness auto
termination
  by (relation "measure length") (auto dest: parse_Element_length)

datatype parse_error = InvalidRelativePath

text \<open>
  Modelled from the spec: \<^verbatim>\<open>makeRelativePath\<close>. A path has at least one element; an
  input that the grammar does not derive is an error.
\<close>

definition makeRelativePath :: "string \<Rightarrow> parse_error + RelativePath" where
  "makeRelativePath s =
     (case parse_Path s of
        None \<Rightarrow> Inl InvalidRelativePath
      | Some [] \<Rightarrow> Inl InvalidRelativePath
      | Some (e # es) \<Rightarrow> Inr \<lparr>elements = e # es\<rparr>)"

section \<open>Example states\<close>

text \<open>
  Concrete values on which the theorems below are instantiated: the enum values
  \<open>1, 2, 3, 4\<close>, a string form that prints the identifier, subscriptions with a given id,
  owner and number of monitored items, and sessions with a given identity, token, status
  and creation date.
\<close>

fun ex_enum :: "NodeIdType \<Rightarrow> nat" where
  "ex_enum NUMERIC = 1"
| "ex_enum STRING = 2"
| "ex_enum GUID = 3"
| "ex_enum BYTESTRING = 4"

definition ex_toString :: "NodeId \<Rightarrow> string" where
  "ex_toString token = nid_value token"

definition ex_token :: "NodeIdType \<Rightarrow> string \<Rightarrow> NodeId" where
  "ex_token t v = \<lparr>identifierType = t, nid_value = v, namespace = 0\<rparr>"

definition ex_subscription :: "nat \<Rightarrow> nat \<Rightarrow> nat \<Rightarrow> Subscription" where
  "ex_subscription sid owner items =
     \<lparr>subscriptionId = sid, session_ref = Some owner, publishEngine_ref = PE_of_session owner,
      lifeTimeCount = 60, maxKeepAliveCount = 10, maxNotificationsPerPublish = 0, priority = 0,
      publishingEnabled = True, publishingInterval = 100, monitoredItemCount = items,
      retransmissionQueue =
        [\<lparr>sequenceNumber = 3, publishTime = 0\<rparr>, \<lparr>sequenceNumber = 4, publishTime = 100\<rparr>],
      transferRequestCount = 0, transferredToAltClientCount = 0,
      transferredToSameClientCount = 0\<rparr>"

definition ex_session ::
  "nat \<Rightarrow> string \<Rightarrow> SessionStatus \<Rightarrow> int \<Rightarrow> (nat \<times> Subscription) list \<Rightarrow> ServerSession" where
  "ex_session r v st date subs =
     \<lparr>sref = r, authenticationToken = ex_token BYTESTRING v, status = st, creationDate = date,
      sessionTimeout = 30000,
      publishEngine = \<lparr>pe_ref = PE_of_session r, subscriptions = subs\<rparr>\<rparr>"

definition ex_engine :: "(string \<times> ServerSession) list \<Rightarrow> ServerEngine" where
  "ex_engine tbl =
     \<lparr>sessions = tbl, closedSessions = [], orphanPublishEngine = None,
      cumulatedSessionCount = int (length tbl), currentSessionCount = int (length tbl),
      maxSessions = 1, clientDescription = []\<rparr>"

text \<open>Session 1 (token \<open>A\<close>) owns subscription 7, session 2 (token \<open>B\<close>) owns subscription 8.\<close>

definition ex_session_A :: ServerSession where
  "ex_session_A = ex_session 1 ''A'' status_active 1000 [(7, ex_subscription 7 1 0)]"

definition ex_session_B :: ServerSession where
  "ex_session_B = ex_session 2 ''B'' status_active 2000 [(8, ex_subscription 8 2 3)]"

definition ex_engine_AB :: ServerEngine where
  "ex_engine_AB = ex_engine [(''A'', ex_session_A), (''B'', ex_session_B)]"

definition ex_engine_A :: ServerEngine where
  "ex_engine_A = ex_engine [(''A'', ex_session_A)]"

text \<open>Two closed sessions, the first created before the second.\<close>

definition ex_engine_closed :: ServerEngine where
  "ex_engine_closed =
     ex_engine [(''A'', ex_session 1 ''A'' status_closed 1000 []),
                (''B'', ex_session 2 ''B'' status_closed 2000 [])]"

definition ex_session_C :: ServerSession where
  "ex_session_C = ex_session 3 ''C'' status_active 3000 []"

text \<open>A user-identity check for the examples: session 3 has an identity of its own.\<close>

definition ex_compatible :: "nat option \<Rightarrow> ServerSession \<Rightarrow> bool" where
  "ex_compatible source target = (sref target \<noteq> 3)"

section \<open>Theorems\<close>

subsection \<open>Auxiliary facts\<close>

lemma findSubscription_loop_found:
  "found \<noteq> [] \<Longrightarrow> findSubscription_loop ss sid found = found"
  by (induction ss) auto

lemma findSubscription_loop_Nil_iff:
  "findSubscription_loop ss sid [] = [] \<longleftrightarrow>
     (\<forall>s \<in> set ss. getSubscriptionById (publishEngine s) sid = None)"
  by (induction ss) (auto simp: findSubscription_loop_found split: option.splits)

lemma findSubscription_None_iff:
  "findSubscription engine sid = None \<longleftrightarrow>
     (\<forall>s \<in> snd ` set (sessions engine). ServerSession_getSubscription s sid = None)
       \<and> findOrphanSubscription engine sid = None"
proof (cases "findSubscription_loop (map snd (sessions engine)) sid []")
  case Nil
  then show ?thesis
    using findSubscription_loop_Nil_iff [of "map snd (sessions engine)" sid]
    by (simp add: findSubscription_def ServerSession_getSubscription_def)
next
  case (Cons a list)
  then show ?thesis
    using findSubscription_loop_Nil_iff [of "map snd (sessions engine)" sid]
    by (auto simp add: findSubscription_def ServerSession_getSubscription_def)
qed

lemma getSubscription_foreign:
  assumes "context_session context = Some session"
    and "ServerSession_getSubscription session sid = None"
  shows "getSubscription engine (sid # args) context =
           Inr (Inl (if findSubscription engine sid \<noteq> None then BadUserAccessDenied
                     else BadSubscriptionIdInvalid))"
  using assms by (simp add: getSubscription_def)

lemma transferSubscriptionsToOrphan_holds:
  assumes "transferSubscriptionsToOrphan src dest = (src', dest')"
  shows "subscriptions src' = []"
    and "length (subscriptions dest') = length (subscriptions dest) + length (subscriptions src)"
    and "getSubscriptionById src sid = Some subscription \<Longrightarrow> getSubscriptionById dest' sid \<noteq> None"
    and "getSubscriptionById dest sid = Some held \<Longrightarrow> getSubscriptionById dest' sid = Some held"
    and "getSubscriptionById src sid = Some subscription \<Longrightarrow> getSubscriptionById dest sid = None
           \<Longrightarrow> getSubscriptionById dest' sid
                 = Some (subscription\<lparr>publishEngine_ref := pe_ref dest'\<rparr>)"
proof -
  from assms have src': "src' = src\<lparr>subscriptions := []\<rparr>"
    and dest': "subscriptions dest' =
      subscriptions dest
        @ map (\<lambda>(sid, subscription). (sid, subscription\<lparr>publishEngine_ref := pe_ref dest\<rparr>))
            (subscriptions src)"
    and ref: "pe_ref dest' = pe_ref dest"
    by (auto simp: transferSubscriptionsToOrphan_def)
  show "subscriptions src' = []" by (simp add: src')
  show "length (subscriptions dest') = length (subscriptions dest) + length (subscriptions src)"
    by (simp add: dest')
  have moved: "map_of (map (\<lambda>(sid, subscription). (sid, subscription\<lparr>publishEngine_ref := pe_ref dest\<rparr>))
            (subscriptions src)) sid
        = map_option (\<lambda>subscription. subscription\<lparr>publishEngine_ref := pe_ref dest\<rparr>)
            (map_of (subscriptions src) sid)"
    by (induction "subscriptions src" arbitrary: src) (auto simp: map_of_map)
  show "getSubscriptionById dest' sid \<noteq> None" if "getSubscriptionById src sid = Some subscription"
    using that moved by (auto simp: getSubscriptionById_def dest' map_add_def split: option.splits)
  show "getSubscriptionById dest' sid = Some held" if "getSubscriptionById dest sid = Some held"
    using that by (simp add: getSubscriptionById_def dest' map_add_def)
  show "getSubscriptionById dest' sid = Some (subscription\<lparr>publishEngine_ref := pe_ref dest'\<rparr>)"
    if "getSubscriptionById src sid = Some subscription" and "getSubscriptionById dest sid = None"
    using that moved by (simp add: getSubscriptionById_def dest' map_add_def ref)
qed

lemma ex_getSession_A:
  "getSession ex_enum ex_toString ex_engine_AB (Some (ex_token BYTESTRING ''A'')) False
     = Some ex_session_A"
  by (simp add: getSession_def ex_token_def ex_toString_def ex_engine_AB_def ex_engine_def)

lemma ex_findSubscription_7:
  "findSubscription ex_engine_AB 7 = Some (ex_subscription 7 1 0)"
  by (simp add: findSubscription_def getSubscriptionById_def ex_engine_AB_def ex_engine_def
      ex_session_A_def ex_session_B_def ex_session_def)

lemma createSubscriptionOnSession_id:
  "createSubscriptionOnSession n session request = (subscription, next', session')
     \<Longrightarrow> subscriptionId subscription = n \<and> next' = Suc n"
  by (auto simp: createSubscriptionOnSession_def get_next_subscriptionId_def
      Subscription_new_def Let_def)

lemma createSubscriptions_ids:
  "map subscriptionId (fst (createSubscriptions n calls)) = [n..<n + length calls]"
proof (induction calls arbitrary: n)
  case Nil
  then show ?case by simp
next
  case (Cons call calls)
  obtain session request where call: "call = (session, request)" by (cases call)
  obtain subscription next' session' where
    one: "createSubscriptionOnSession n session request = (subscription, next', session')"
    by (cases "createSubscriptionOnSession n session request")
  obtain created next'' where rest: "createSubscriptions (Suc n) calls = (created, next'')"
    by (cases "createSubscriptions (Suc n) calls")
  have ids: "map subscriptionId created = [Suc n..<Suc n + length calls]"
    using Cons.IH [of "Suc n"] rest by simp
  have "map subscriptionId (fst (createSubscriptions n (call # calls)))
          = n # [Suc n..<Suc n + length calls]"
    using createSubscriptionOnSession_id [OF one] one rest ids by (simp add: call)
  also have "\<dots> = [n..<Suc n + length calls]"
    by (rule upt_conv_Cons [symmetric]) simp
  also have "\<dots> = [n..<n + length (call # calls)]"
    by simp
  finally show ?case .
qed

subsection \<open>Claims\<close>

text \<open>
  Claim C1. \<^verbatim>\<open>SetSubscriptionDurable\<close> on a subscription of the calling session: with at
  least one monitored item the answer is \<^verbatim>\<open>BadInvalidState\<close> and the subscription is
  unchanged; otherwise the answer is \<^verbatim>\<open>Good\<close> with the revised lifetime, which is 2400 for a
  request of 0 and \<open>max 1 (min lifetimeInHours 2400)\<close> otherwise, hence between 1 and 2400.
\<close>

theorem setSubscriptionDurable_revised_lifetime:
  assumes "context_session context = Some session"
    and "ServerSession_getSubscription session sid = Some subscription"
  shows "\<exists>result subscription'.
           setSubscriptionDurable modify engine [sid, lifetimeInHours] context
             = Inr (result, Some subscription')
         \<and> (if 0 < monitoredItemCount subscription
            then statusCode result = BadInvalidState \<and> subscription' = subscription
            else statusCode result = Good
               \<and> outputArguments result =
                   [UInt32_Scalar (if lifetimeInHours = 0 then 2400
                                   else max 1 (min lifetimeInHours 2400))]
               \<and> (\<exists>revised. outputArguments result = [UInt32_Scalar revised]
                      \<and> 1 \<le> revised \<and> revised \<le> 2400))"
proof -
  have sub: "getSubscription engine [sid, lifetimeInHours] context = Inr (Inr subscription)"
    using assms by (simp add: getSubscription_def)
  show ?thesis
    by (simp add: setSubscriptionDurable_def sub Let_def)
qed

theorem setSubscriptionDurable_revised_lifetime_witness:
  "context_session \<lparr>context_session = Some ex_session_A\<rparr> = Some ex_session_A
   \<and> ServerSession_getSubscription ex_session_A 7 = Some (ex_subscription 7 1 0)
   \<and> (\<exists>subscription'.
         setSubscriptionDurable (\<lambda>opts s. s) ex_engine_AB [7, 5000]
             \<lparr>context_session = Some ex_session_A\<rparr>
           = Inr (\<lparr>statusCode = Good, outputArguments = [UInt32_Scalar 2400]\<rparr>, Some subscription'))"
proof -
  have h1: "context_session \<lparr>context_session = Some ex_session_A\<rparr> = Some ex_session_A"
    by simp
  have h2: "ServerSession_getSubscription ex_session_A 7 = Some (ex_subscription 7 1 0)"
    by (simp add: ServerSession_getSubscription_def getSubscriptionById_def ex_session_A_def
        ex_session_def)
  have items: "monitoredItemCount (ex_subscription 7 1 0) = 0"
    by (simp add: ex_subscription_def)
  show ?thesis
    using h1 h2 items
      setSubscriptionDurable_revised_lifetime [OF h1 h2, of "\<lambda>opts s. s" ex_engine_AB 5000]
    by auto
qed

text \<open>
  Claim C2. \<^verbatim>\<open>transferSubscription\<close> on an existing subscription (ids are positive):
  when the subscription's session and the target do not share the user identity the status
  is \<^verbatim>\<open>BadUserAccessDenied\<close>; else, when the target's publish engine or the target itself
  already owns the subscription, it is \<^verbatim>\<open>BadNothingToDo\<close>; otherwise it is \<^verbatim>\<open>Good\<close> and the
  available sequence numbers are those of the retransmission queue.
\<close>

theorem transferSubscription_status:
  assumes "findSubscription engine sid = Some subscription"
    and "0 < sid"
  shows "(let result = fst (transferSubscription compatible engine session sid sendInitialValues)
          in if \<not> compatible (session_ref subscription) session
             then transfer_statusCode result = BadUserAccessDenied
             else if pe_ref (publishEngine session) = publishEngine_ref subscription
                     \<or> session_ref subscription = Some (sref session)
             then transfer_statusCode result = BadNothingToDo
             else transfer_statusCode result = Good
                \<and> availableSequenceNumbers result
                    = map sequenceNumber (retransmissionQueue subscription))"
  using assms
  by (auto simp: transferSubscription_def Let_def getAvailableSequenceNumbers_def
      ServerSidePublishEngine_transferSubscription_def)

theorem transferSubscription_status_witness:
  "findSubscription ex_engine_AB 7 = Some (ex_subscription 7 1 0) \<and> (0::nat) < 7
   \<and> transfer_statusCode (fst (transferSubscription ex_compatible ex_engine_AB ex_session_C 7 False))
       = BadUserAccessDenied
   \<and> transfer_statusCode (fst (transferSubscription ex_compatible ex_engine_AB ex_session_A 7 False))
       = BadNothingToDo
   \<and> transfer_statusCode (fst (transferSubscription ex_compatible ex_engine_AB ex_session_B 7 False))
       = Good
   \<and> availableSequenceNumbers (fst (transferSubscription ex_compatible ex_engine_AB ex_session_B 7 False))
       = [3, 4]"
proof -
  have pos: "(0::nat) < 7" by simp
  have facts:
    "\<not> ex_compatible (session_ref (ex_subscription 7 1 0)) ex_session_C"
    "ex_compatible (session_ref (ex_subscription 7 1 0)) ex_session_A"
    "ex_compatible (session_ref (ex_subscription 7 1 0)) ex_session_B"
    "pe_ref (publishEngine ex_session_A) = publishEngine_ref (ex_subscription 7 1 0)"
    "pe_ref (publishEngine ex_session_B) \<noteq> publishEngine_ref (ex_subscription 7 1 0)"
    "session_ref (ex_subscription 7 1 0) \<noteq> Some (sref ex_session_B)"
    "map sequenceNumber (retransmissionQueue (ex_subscription 7 1 0)) = [3, 4]"
    by (simp_all add: ex_compatible_def ex_subscription_def ex_session_A_def ex_session_B_def
        ex_session_C_def ex_session_def)
  show ?thesis
    using ex_findSubscription_7 pos facts
      transferSubscription_status [OF ex_findSubscription_7 pos, of ex_compatible ex_session_C False]
      transferSubscription_status [OF ex_findSubscription_7 pos, of ex_compatible ex_session_A False]
      transferSubscription_status [OF ex_findSubscription_7 pos, of ex_compatible ex_session_B False]
    by (simp add: Let_def)
qed

text \<open>
  Claim C3, as amended. \<^verbatim>\<open>createSession\<close> adds exactly 1 to \<^verbatim>\<open>cumulatedSessionCount\<close> and
  to \<^verbatim>\<open>currentSessionCount\<close> and registers the new session under the string form of its
  token. It does not look at \<^verbatim>\<open>maxSessions\<close>: every session registered under another key
  stays registered, and the call always returns a session.
\<close>

theorem createSession_counts_and_registers:
  "(case createSession toString engine options ref token now of
      (session, engine') \<Rightarrow>
        cumulatedSessionCount engine' = cumulatedSessionCount engine + 1
        \<and> currentSessionCount engine' = currentSessionCount engine + 1
        \<and> map_of (sessions engine') = (map_of (sessions engine))(toString token \<mapsto> session)
        \<and> maxSessions engine' = maxSessions engine)"
  by (simp add: createSession_def Let_def ServerSession_new_def update_conv')

text \<open>
  Claim C3 as stated fails: the engine below has one active session and \<^verbatim>\<open>maxSessions = 1\<close>,
  there is no inactive session to evict, and \<^verbatim>\<open>createSession\<close> still succeeds and leaves two
  registered sessions.
\<close>

theorem createSession_exceeds_maxSessions:
  "length (sessions ex_engine_A) = maxSessions ex_engine_A
   \<and> getOldestInactiveSession ex_engine_A = None
   \<and> map fst (sessions (snd (createSession ex_toString ex_engine_A None 3
          (ex_token BYTESTRING ''C'') 3000))) = [''A'', ''C'']
   \<and> maxSessions (snd (createSession ex_toString ex_engine_A None 3
          (ex_token BYTESTRING ''C'') 3000)) = 1"
  by (simp add: createSession_def Let_def ServerSession_new_def ex_engine_A_def ex_engine_def
      ex_toString_def ex_token_def getOldestInactiveSession_def ex_session_A_def ex_session_def)

text \<open>
  Claim C4 fails on the code: the loop of \<^verbatim>\<open>getOldestInactiveSession\<close> replaces the
  candidate when its creation date is smaller than the next one's, so it keeps the newest
  session. Of two closed sessions created at 1000 and 2000 it returns the second.
\<close>

theorem getOldestInactiveSession_returns_newest:
  "getOldestInactiveSession ex_engine_closed = Some (ex_session 2 ''B'' status_closed 2000 [])
   \<and> map_of (sessions ex_engine_closed) ''A'' = Some (ex_session 1 ''A'' status_closed 1000 [])
   \<and> creationDate (ex_session 1 ''A'' status_closed 1000 [])
       < creationDate (ex_session 2 ''B'' status_closed 2000 [])"
  by (simp add: getOldestInactiveSession_def ex_engine_closed_def ex_engine_def ex_session_def)

text \<open>
  Claim C5, as amended. The timeout of the new session is the requested one, unchanged;
  1000 ms replace an omitted or zero request. \<^verbatim>\<open>createSession\<close> does not clamp.
\<close>

theorem createSession_timeout_unclamped:
  "sessionTimeout (fst (createSession toString engine options ref token now)) =
     (case options of
        None \<Rightarrow> 1000
      | Some opts \<Rightarrow>
          (case opt_sessionTimeout opts of
             None \<Rightarrow> 1000
           | Some t \<Rightarrow> if t = 0 then 1000 else t))"
  by (simp add: createSession_def Let_def ServerSession_new_def split: option.splits)

text \<open>
  Claim C5 as stated fails: without a requested timeout the session gets 1000 ms, and a
  request of 5000 ms is kept; both are below 10 s.
\<close>

theorem createSession_timeout_below_10s:
  "sessionTimeout (fst (createSession ex_toString ex_engine_A None 3 (ex_token BYTESTRING ''C'') 3000))
     = 1000
   \<and> sessionTimeout (fst (createSession ex_toString ex_engine_A
        (Some \<lparr>opt_clientDescription = None, opt_sessionTimeout = Some 5000\<rparr>) 3
        (ex_token BYTESTRING ''C'') 3000)) = 5000
   \<and> (5000 :: int) < 10000"
  by (simp add: createSession_def Let_def ServerSession_new_def)

text \<open>
  Claim C6, as amended. \<^verbatim>\<open>closeSession\<close> on an existing session. Without
  \<^verbatim>\<open>deleteSubscriptions\<close>: every subscription of the session is held by the orphanage
  afterwards (as it was, except that it names the orphanage as its publish engine), the
  orphanage keeps what it held and grows by the number of the session's subscriptions
  (none is deleted), \<^verbatim>\<open>currentSessionCount\<close> drops by exactly 1, the session
  is no longer registered, its status is \<open>closed\<close> when \<^verbatim>\<open>session.close\<close> returns and
  \<open>disposed\<close> when the call returns. With \<^verbatim>\<open>deleteSubscriptions\<close> the orphanage is untouched.
\<close>

theorem closeSession_effects:
  assumes "getSession enum toString engine (Some token) False = Some session"
  shows "(\<exists>engine' closed orphan'.
           closeSession enum toString engine token False reason
             = Inr (engine', closed, ServerSession_dispose closed)
         \<and> orphanPublishEngine engine' = Some orphan'
         \<and> (\<forall>sid subscription. ServerSession_getSubscription session sid = Some subscription
               \<longrightarrow> findOrphanSubscription engine' sid \<noteq> None)
         \<and> (\<forall>sid subscription. ServerSession_getSubscription session sid = Some subscription
               \<and> findOrphanSubscription engine sid = None
               \<longrightarrow> findOrphanSubscription engine' sid
                     = Some (subscription\<lparr>publishEngine_ref := pe_ref orphan'\<rparr>))
         \<and> (\<forall>sid held. findOrphanSubscription engine sid = Some held
               \<longrightarrow> findOrphanSubscription engine' sid = Some held)
         \<and> length (subscriptions orphan')
              = (case orphanPublishEngine engine of None \<Rightarrow> 0
                 | Some orphan \<Rightarrow> length (subscriptions orphan))
                + length (subscriptions (publishEngine session))
         \<and> currentSessionCount engine' = currentSessionCount engine - 1
         \<and> map_of (sessions engine') (toString token) = None
         \<and> status closed = status_closed
         \<and> status (ServerSession_dispose closed) = status_disposed)
       \<and> (\<exists>engine' closed.
           closeSession enum toString engine token True reason
             = Inr (engine', closed, ServerSession_dispose closed)
         \<and> orphanPublishEngine engine' = orphanPublishEngine engine
         \<and> currentSessionCount engine' = currentSessionCount engine - 1
         \<and> status closed = status_closed
         \<and> status (ServerSession_dispose closed) = status_disposed)"
proof (intro conjI)
  define orphan where "orphan =
    (case orphanPublishEngine engine of
       None \<Rightarrow> \<lparr>pe_ref = PE_orphan, subscriptions = []\<rparr>
     | Some existing \<Rightarrow> existing)"
  obtain src dest where t: "transferSubscriptionsToOrphan (publishEngine session) orphan = (src, dest)"
    by (cases "transferSubscriptionsToOrphan (publishEngine session) orphan")
  note h = transferSubscriptionsToOrphan_holds [OF t]
  define closed where "closed = ServerSession_close (session\<lparr>publishEngine := src\<rparr>) False reason"
  define engine' where "engine' =
    engine\<lparr>orphanPublishEngine := Some dest,
           currentSessionCount := currentSessionCount engine - 1,
           sessions := AList.delete (toString token) (sessions engine)\<rparr>"
  have run: "closeSession enum toString engine token False reason
      = Inr (engine', closed, ServerSession_dispose closed)"
    using assms t
    by (simp add: closeSession_def orphan_def [symmetric] closed_def engine'_def Let_def)
  have len: "length (subscriptions orphan)
      = (case orphanPublishEngine engine of None \<Rightarrow> 0 | Some orphan \<Rightarrow> length (subscriptions orphan))"
    by (simp add: orphan_def split: option.splits)
  have kept: "findOrphanSubscription engine sid = Some held \<Longrightarrow> getSubscriptionById orphan sid = Some held"
    for sid held
    by (auto simp: findOrphanSubscription_def orphan_def split: option.splits)
  have none: "findOrphanSubscription engine sid = None \<Longrightarrow> getSubscriptionById orphan sid = None"
    for sid
    by (auto simp: findOrphanSubscription_def orphan_def getSubscriptionById_def
        split: option.splits)
  show "\<exists>engine' closed orphan'.
           closeSession enum toString engine token False reason
             = Inr (engine', closed, ServerSession_dispose closed)
         \<and> orphanPublishEngine engine' = Some orphan'
         \<and> (\<forall>sid subscription. ServerSession_getSubscription session sid = Some subscription
               \<longrightarrow> findOrphanSubscription engine' sid \<noteq> None)
         \<and> (\<forall>sid subscription. ServerSession_getSubscription session sid = Some subscription
               \<and> findOrphanSubscription engine sid = None
               \<longrightarrow> findOrphanSubscription engine' sid
                     = Some (subscription\<lparr>publishEngine_ref := pe_ref orphan'\<rparr>))
         \<and> (\<forall>sid held. findOrphanSubscription engine sid = Some held
               \<longrightarrow> findOrphanSubscription engine' sid = Some held)
         \<and> length (subscriptions orphan')
              = (case orphanPublishEngine engine of None \<Rightarrow> 0
                 | Some orphan \<Rightarrow> length (subscriptions orphan))
                + length (subscriptions (publishEngine session))
         \<and> currentSessionCount engine' = currentSessionCount engine - 1
         \<and> map_of (sessions engine') (toString token) = None
         \<and> status closed = status_closed
         \<and> status (ServerSession_dispose closed) = status_disposed"
    apply (rule exI [of _ engine'], rule exI [of _ closed], rule exI [of _ dest])
    using h(2) h(3) h(4) h(5) kept none len
    by (auto simp: run engine'_def closed_def findOrphanSubscription_def
        ServerSession_getSubscription_def ServerSession_close_def ServerSession_dispose_def
        delete_conv')
next
  show "\<exists>engine' closed.
           closeSession enum toString engine token True reason
             = Inr (engine', closed, ServerSession_dispose closed)
         \<and> orphanPublishEngine engine' = orphanPublishEngine engine
         \<and> currentSessionCount engine' = currentSessionCount engine - 1
         \<and> status closed = status_closed
         \<and> status (ServerSession_dispose closed) = status_disposed"
    using assms
    by (simp add: closeSession_def Let_def ServerSession_close_def ServerSession_dispose_def)
qed

theorem closeSession_effects_witness:
  "getSession ex_enum ex_toString ex_engine_AB (Some (ex_token BYTESTRING ''A'')) False
     = Some ex_session_A
   \<and> (\<exists>engine' closed orphan'.
         closeSession ex_enum ex_toString ex_engine_AB (ex_token BYTESTRING ''A'') False Timeout
           = Inr (engine', closed, ServerSession_dispose closed)
       \<and> orphanPublishEngine engine' = Some orphan'
       \<and> findOrphanSubscription engine' 7 \<noteq> None
       \<and> length (subscriptions orphan') = 1
       \<and> currentSessionCount engine' = 1
       \<and> status closed = status_closed
       \<and> status (ServerSession_dispose closed) = status_disposed)"
proof -
  have sub: "ServerSession_getSubscription ex_session_A 7 = Some (ex_subscription 7 1 0)"
    by (simp add: ServerSession_getSubscription_def getSubscriptionById_def ex_session_A_def
        ex_session_def)
  have facts: "orphanPublishEngine ex_engine_AB = None"
    "currentSessionCount ex_engine_AB = 2"
    "length (subscriptions (publishEngine ex_session_A)) = 1"
    by (simp_all add: ex_engine_AB_def ex_engine_def ex_session_A_def ex_session_def)
  from closeSession_effects [OF ex_getSession_A, of Timeout]
  obtain engine' closed orphan' where
    "closeSession ex_enum ex_toString ex_engine_AB (ex_token BYTESTRING ''A'') False Timeout
       = Inr (engine', closed, ServerSession_dispose closed)"
    "orphanPublishEngine engine' = Some orphan'"
    "\<forall>sid subscription. ServerSession_getSubscription ex_session_A sid = Some subscription
       \<longrightarrow> findOrphanSubscription engine' sid \<noteq> None"
    "length (subscriptions orphan')
       = (case orphanPublishEngine ex_engine_AB of None \<Rightarrow> 0
          | Some orphan \<Rightarrow> length (subscriptions orphan))
         + length (subscriptions (publishEngine ex_session_A))"
    "currentSessionCount engine' = currentSessionCount ex_engine_AB - 1"
    "status closed = status_closed"
    "status (ServerSession_dispose closed) = status_disposed"
    by blast
  then show ?thesis
    using sub facts ex_getSession_A by auto
qed

text \<open>
  Claim C6 as stated fails in its last part: \<^verbatim>\<open>closeSession\<close> ends with
  \<^verbatim>\<open>session.dispose()\<close>, so after the call the status is \<open>disposed\<close>, not \<open>closed\<close>.
\<close>

theorem closeSession_leaves_status_disposed:
  "\<not> isl (closeSession ex_enum ex_toString ex_engine_AB (ex_token BYTESTRING ''A'') False Timeout)
   \<and> status (snd (snd (projr
         (closeSession ex_enum ex_toString ex_engine_AB (ex_token BYTESTRING ''A'') False Timeout))))
       = status_disposed
   \<and> status (snd (snd (projr
         (closeSession ex_enum ex_toString ex_engine_AB (ex_token BYTESTRING ''A'') False Timeout))))
       \<noteq> status_closed"
  by (simp add: closeSession_def ex_getSession_A Let_def transferSubscriptionsToOrphan_def
      ServerSession_dispose_def split: prod.splits)

text \<open>
  Claim C7. A subscription created by \<^verbatim>\<open>_createSubscriptionOnSession\<close> gets the current
  value of the one counter, which is then incremented. Over successive creations, on
  whatever sessions, the ids are the consecutive numbers from the seed on: strictly
  increasing and pairwise distinct.
\<close>

theorem subscription_ids_strictly_increasing:
  "subscriptionId (fst (createSubscriptionOnSession seed session request)) = seed
   \<and> fst (snd (createSubscriptionOnSession seed session request)) = seed + 1
   \<and> map subscriptionId (fst (createSubscriptions seed calls)) = [seed..<seed + length calls]
   \<and> sorted_wrt (<) (map subscriptionId (fst (createSubscriptions seed calls)))
   \<and> distinct (map subscriptionId (fst (createSubscriptions seed calls)))"
proof -
  have "sorted_wrt (<) [seed..<seed + length calls]"
    by (rule sorted_wrt_upt)
  then show ?thesis
    by (simp add: createSubscriptions_ids createSubscriptionOnSession_def
        get_next_subscriptionId_def Subscription_new_def Let_def)
qed

text \<open>
  Claim C8. For every reserved character \<open>c\<close>, the path \<^verbatim>\<open>/1:x&cy\<close> parses to one
  element, over hierarchical references, whose target name has namespace index 1 and the
  name \<^verbatim>\<open>xcy\<close> with \<open>c\<close> unescaped.
\<close>

theorem makeRelativePath_escaped_reserved:
  "\<forall>c \<in> set reservedChars.
     makeRelativePath (''/1:x&'' @ [c] @ ''y'') =
       Inr \<lparr>elements =
             [\<lparr>referenceTypeId = HierarchicalReferences, isInverse = False,
               includeSubtypes = True,
               targetName = \<lparr>namespaceIndex = 1, name = ''x'' @ [c] @ ''y''\<rparr>\<rparr>]\<rparr>"
  by (simp add: makeRelativePath_def parse_Element_def parse_RefSpec_def parse_QName_def
      isDigit_def digits_value_def isReserved_def reservedChars_def)

theorem makeRelativePath_escaped_reserved_witness:
  "CHR ''#'' \<in> set reservedChars
   \<and> makeRelativePath ''/1:x&#y'' =
       Inr \<lparr>elements =
             [\<lparr>referenceTypeId = HierarchicalReferences, isInverse = False,
               includeSubtypes = True,
               targetName = \<lparr>namespaceIndex = 1, name = ''x#y''\<rparr>\<rparr>]\<rparr>"
proof -
  have h: "CHR ''#'' \<in> set reservedChars"
    by (simp add: reservedChars_def)
  show ?thesis
    using h makeRelativePath_escaped_reserved [rule_format, OF h] by simp
qed

text \<open>
  Claim C9. The caller's session does not hold the subscription id. When another session
  of the engine (or the orphanage) holds it, \<^verbatim>\<open>GetMonitoredItems\<close>,
  \<^verbatim>\<open>SetSubscriptionDurable\<close> and \<^verbatim>\<open>ResendData\<close> all answer \<^verbatim>\<open>BadUserAccessDenied\<close>; when no
  session and no orphan subscription has the id they all answer
  \<^verbatim>\<open>BadSubscriptionIdInvalid\<close>. The two answers never swap.
\<close>

theorem foreign_subscription_denied_unknown_invalid:
  assumes "context_session context = Some session"
    and "ServerSession_getSubscription session sid = None"
  shows "(let code =
            (if (\<exists>owner \<in> snd ` set (sessions engine).
                    ServerSession_getSubscription owner sid \<noteq> None)
                 \<or> findOrphanSubscription engine sid \<noteq> None
             then BadUserAccessDenied else BadSubscriptionIdInvalid)
          in getMonitoredItemsId getMonitoredItems engine (sid # args) context
               = Inr \<lparr>statusCode = code, outputArguments = []\<rparr>
           \<and> setSubscriptionDurable modify engine (sid # args) context
               = Inr (\<lparr>statusCode = code, outputArguments = []\<rparr>, None)
           \<and> resendData resendInitialValues engine (sid # args) context
               = Inr (\<lparr>statusCode = code, outputArguments = []\<rparr>, None))"
proof -
  have known: "findSubscription engine sid \<noteq> None \<longleftrightarrow>
      (\<exists>owner \<in> snd ` set (sessions engine). ServerSession_getSubscription owner sid \<noteq> None)
        \<or> findOrphanSubscription engine sid \<noteq> None"
    by (auto simp: findSubscription_None_iff)
  show ?thesis
    using getSubscription_foreign [OF assms, of engine args] known
    by (simp add: getMonitoredItemsId_def setSubscriptionDurable_def resendData_def)
qed

theorem foreign_subscription_denied_unknown_invalid_witness:
  "context_session \<lparr>context_session = Some ex_session_A\<rparr> = Some ex_session_A
   \<and> ServerSession_getSubscription ex_session_A 8 = None
   \<and> ServerSession_getSubscription ex_session_A 9 = None
   \<and> setSubscriptionDurable (\<lambda>opts s. s) ex_engine_AB [8, 5]
        \<lparr>context_session = Some ex_session_A\<rparr>
       = Inr (\<lparr>statusCode = BadUserAccessDenied, outputArguments = []\<rparr>, None)
   \<and> setSubscriptionDurable (\<lambda>opts s. s) ex_engine_AB [9, 5]
        \<lparr>context_session = Some ex_session_A\<rparr>
       = Inr (\<lparr>statusCode = BadSubscriptionIdInvalid, outputArguments = []\<rparr>, None)"
proof -
  have h1: "context_session \<lparr>context_session = Some ex_session_A\<rparr> = Some ex_session_A"
    by simp
  have h8: "ServerSession_getSubscription ex_session_A 8 = None"
    by (simp add: ServerSession_getSubscription_def getSubscriptionById_def ex_session_A_def
        ex_session_def)
  have h9: "ServerSession_getSubscription ex_session_A 9 = None"
    by (simp add: ServerSession_getSubscription_def getSubscriptionById_def ex_session_A_def
        ex_session_def)
  have B8: "ServerSession_getSubscription ex_session_B 8 \<noteq> None"
    by (simp add: ServerSession_getSubscription_def getSubscriptionById_def ex_session_B_def
        ex_session_def)
  have B9: "ServerSession_getSubscription ex_session_B 9 = None"
    by (simp add: ServerSession_getSubscription_def getSubscriptionById_def ex_session_B_def
        ex_session_def)
  have tbl: "snd ` set (sessions ex_engine_AB) = {ex_session_A, ex_session_B}"
    by (simp add: ex_engine_AB_def ex_engine_def)
  have orphan: "findOrphanSubscription ex_engine_AB sid = None" for sid
    by (simp add: findOrphanSubscription_def ex_engine_AB_def ex_engine_def)
  show ?thesis
    using h1 h8 h9 B8 B9 tbl orphan
      foreign_subscription_denied_unknown_invalid [OF h1 h8, of ex_engine_AB "\<lambda>s. (Good, [], [])" "[5]"
        "\<lambda>opts s. s" Inr]
      foreign_subscription_denied_unknown_invalid [OF h1 h9, of ex_engine_AB "\<lambda>s. (Good, [], [])" "[5]"
        "\<lambda>opts s. s" Inr]
    by (simp add: Let_def)
qed

text \<open>
  Claim C10. For an authentication token whose identifier type is not \<^verbatim>\<open>BYTESTRING\<close>,
  \<^verbatim>\<open>getSession\<close> returns \<^verbatim>\<open>null\<close>, whatever the session tables hold, whatever the string
  form of the token is and whatever \<^verbatim>\<open>activeOnly\<close> is. The enum's numeric values are not
  part of the sources; the statement holds for every declaration whose other members are
  non-zero and differ from \<^verbatim>\<open>BYTESTRING\<close>.
\<close>

theorem getSession_rejects_non_bytestring:
  assumes "NodeIdType_distinct_truthy enum"
    and "identifierType token \<noteq> BYTESTRING"
  shows "getSession enum toString engine (Some token) activeOnly = None"
proof -
  from assms have "enum (identifierType token) \<noteq> 0 \<and> enum (identifierType token) \<noteq> enum BYTESTRING"
    by (cases "identifierType token") (simp_all add: NodeIdType_distinct_truthy_def)
  then show ?thesis
    by (simp add: getSession_def)
qed

theorem getSession_rejects_non_bytestring_witness:
  "NodeIdType_distinct_truthy ex_enum
   \<and> identifierType (ex_token STRING ''A'') \<noteq> BYTESTRING
   \<and> getSession ex_enum ex_toString ex_engine_AB (Some (ex_token BYTESTRING ''A'')) False
        = Some ex_session_A
   \<and> getSession ex_enum ex_toString ex_engine_AB (Some (ex_token STRING ''A'')) False = None"
proof -
  have h1: "NodeIdType_distinct_truthy ex_enum"
    by (simp add: NodeIdType_distinct_truthy_def)
  have h2: "identifierType (ex_token STRING ''A'') \<noteq> BYTESTRING"
    by (simp add: ex_token_def)
  have found: "getSession ex_enum ex_toString ex_engine_AB (Some (ex_token BYTESTRING ''A'')) False
        = Some ex_session_A"
    by (simp add: getSession_def ex_token_def ex_toString_def ex_engine_AB_def ex_engine_def)
  show ?thesis
    using h1 h2 found getSession_rejects_non_bytestring [OF h1 h2, of ex_toString ex_engine_AB False]
    by simp
qed

end
